theory Spec2Isabelle
  imports Main "HOL-Library.AList" "HOL-Library.Sublist" "HOL-Library.Word"
begin

section \<open>JavaScript values that pass through the adapter\<close>

text \<open>
  A number is carried by the decimal text that the engine's number-to-string conversion
  gives for it (\<open>''0''\<close> for both zeros, \<open>''6.5''\<close>, \<open>''-3''\<close>), so no floating-point
  arithmetic is modelled; the two values without such a text are separate constructors.
  A string is a list of bytes (well-formed text in UTF-8). An object is the list of its own
  enumerable properties in the engine's enumeration order, which is the order of both
  \<^verbatim>\<open>Object.keys\<close> and \<^verbatim>\<open>JSON.stringify\<close>.
\<close>

datatype number = Finite string | Infinite | NaN

datatype json =
    JNull
  | JBool bool
  | JNum number
  | JStr string
  | JArr "json list"
  | JObj "(string \<times> json) list"

text \<open>
  What a property read can give besides a JSON value: \<^verbatim>\<open>undefined\<close>, a built-in function
  inherited from \<^verbatim>\<open>Object.prototype\<close>, or \<^verbatim>\<open>Object.prototype\<close> itself (through
  \<^verbatim>\<open>__proto__\<close>).
\<close>

datatype jsval = Undefined | Val json | Function | ObjectPrototype

abbreviation String :: "string \<Rightarrow> jsval" where
  "String s \<equiv> Val (JStr s)"

subsection \<open>Truthiness\<close>

fun truthy_json :: "json \<Rightarrow> bool" where
  "truthy_json JNull = False"
| "truthy_json (JBool b) = b"
| "truthy_json (JNum n) = (case n of Finite s \<Rightarrow> s \<noteq> ''0'' | Infinite \<Rightarrow> True | NaN \<Rightarrow> False)"
| "truthy_json (JStr s) = (s \<noteq> [])"
| "truthy_json (JArr xs) = True"
| "truthy_json (JObj kvs) = True"

fun truthy :: "jsval \<Rightarrow> bool" where
  "truthy Undefined = False"
| "truthy (Val j) = truthy_json j"
| "truthy Function = True"
| "truthy ObjectPrototype = True"

subsection \<open>\<^verbatim>\<open>JSON.stringify(value, null, 2)\<close>\<close>

definition hex_digit :: "nat \<Rightarrow> char" where
  "hex_digit n = ''0123456789abcdef'' ! (n mod 16)"

definition unicode_escape :: "char \<Rightarrow> string" where
  "unicode_escape c =
     CHR 0x5C # ''u00'' @ [hex_digit (of_char c div 16), hex_digit (of_char c mod 16)]"

definition quote_char :: "char \<Rightarrow> string" where
  "quote_char c =
     (if c = CHR 0x08 then [CHR 0x5C, CHR ''b'']
      else if c = CHR 0x09 then [CHR 0x5C, CHR ''t'']
      else if c = CHR 0x0A then [CHR 0x5C, CHR ''n'']
      else if c = CHR 0x0C then [CHR 0x5C, CHR ''f'']
      else if c = CHR 0x0D then [CHR 0x5C, CHR ''r'']
      else if c = CHR 0x22 then [CHR 0x5C, CHR 0x22]
      else if c = CHR 0x5C then [CHR 0x5C, CHR 0x5C]
      else if (of_char c :: nat) < 0x20 then unicode_escape c
      else [c])"

definition quote :: "string \<Rightarrow> string" where
  "quote s = [CHR 0x22] @ concat (map quote_char s) @ [CHR 0x22]"

fun join :: "string \<Rightarrow> string list \<Rightarrow> string" where
  "join sep [] = []"
| "join sep [x] = x"
| "join sep (x # y # ys) = x @ sep @ join sep (y # ys)"

text \<open>
  The serialisation with a gap of two spaces; \<open>ind\<close> is the indentation of the enclosing
  level. Every value inside a \<^typ>\<open>json\<close> serialises, so no member is ever dropped.
\<close>

fun serialize :: "string \<Rightarrow> json \<Rightarrow> string" where
  "serialize ind JNull = ''null''"
| "serialize ind (JBool b) = (if b then ''true'' else ''false'')"
| "serialize ind (JNum n) = (case n of Finite s \<Rightarrow> s | Infinite \<Rightarrow> ''null'' | NaN \<Rightarrow> ''null'')"
| "serialize ind (JStr s) = quote s"
| "serialize ind (JArr xs) =
     (if xs = [] then ''[]''
      else ''['' @ [CHR 0x0A] @ (ind @ ''  '') @
           join ('','' @ [CHR 0x0A] @ (ind @ ''  '')) (map (serialize (ind @ ''  '')) xs) @
           [CHR 0x0A] @ ind @ '']'')"
| "serialize ind (JObj kvs) =
     (if kvs = [] then ''{}''
      else ''{'' @ [CHR 0x0A] @ (ind @ ''  '') @
           join ('','' @ [CHR 0x0A] @ (ind @ ''  ''))
             (map (\<lambda>(k, v). quote k @ '': '' @ serialize (ind @ ''  '') v) kvs) @
           [CHR 0x0A] @ ind @ ''}'')"

definition stringify :: "json \<Rightarrow> string" where
  "stringify j = serialize [] j"

text \<open>
  At top level \<^verbatim>\<open>JSON.stringify\<close> gives \<^verbatim>\<open>undefined\<close> for \<^verbatim>\<open>undefined\<close> and for
  a function; \<^verbatim>\<open>Object.prototype\<close> has no enumerable property of its own.
\<close>

fun JSON_stringify :: "jsval \<Rightarrow> jsval" where
  "JSON_stringify Undefined = Undefined"
| "JSON_stringify (Val j) = String (stringify j)"
| "JSON_stringify Function = Undefined"
| "JSON_stringify ObjectPrototype = String ''{}''"

text \<open>Inside an array, \<^verbatim>\<open>undefined\<close> and functions serialise as \<^verbatim>\<open>null\<close>.\<close>

fun array_element :: "jsval \<Rightarrow> json" where
  "array_element Undefined = JNull"
| "array_element (Val j) = j"
| "array_element Function = JNull"
| "array_element ObjectPrototype = JObj []"

subsection \<open>Outcomes of promises\<close>

text \<open>
  \<open>Error m\<close> is \<^verbatim>\<open>new Error(m)\<close>; \<open>Thrown e\<close> is an exception of another origin, passed
  on as it is. \<open>Uncovered\<close> marks the reads this development does not model: a property of
  a string, number, boolean or array, whose answer depends on the engine's prototype objects,
  and the keys of a string.
\<close>

datatype 'x error = Error string | SyntaxError | TypeError | Thrown 'x

datatype ('a, 'x) outcome = Resolved 'a | Rejected "'x error" | Uncovered

fun and_then :: "('a, 'x) outcome \<Rightarrow> ('a \<Rightarrow> ('b, 'x) outcome) \<Rightarrow> ('b, 'x) outcome" where
  "and_then (Resolved a) f = f a"
| "and_then (Rejected e) f = Rejected e"
| "and_then Uncovered f = Uncovered"

subsection \<open>Property reads\<close>

definition object_prototype :: "string \<Rightarrow> jsval" where
  "object_prototype k =
     (if k = ''__proto__'' then ObjectPrototype
      else if k \<in> set [''constructor'', ''hasOwnProperty'', ''isPrototypeOf'',
                        ''propertyIsEnumerable'', ''toLocaleString'', ''toString'', ''valueOf'',
                        ''__defineGetter__'', ''__defineSetter__'', ''__lookupGetter__'',
                        ''__lookupSetter__'']
      then Function
      else Undefined)"

text \<open>\<^verbatim>\<open>data[k]\<close>: an own property first, then the prototype; reading from \<^verbatim>\<open>null\<close> throws.\<close>

fun get_property :: "json \<Rightarrow> string \<Rightarrow> (jsval, 'x) outcome" where
  "get_property JNull k = Rejected TypeError"
| "get_property (JObj kvs) k =
     Resolved (case map_of kvs k of Some v \<Rightarrow> Val v | None \<Rightarrow> object_prototype k)"
| "get_property (JBool b) k = Uncovered"
| "get_property (JNum n) k = Uncovered"
| "get_property (JStr s) k = Uncovered"
| "get_property (JArr xs) k = Uncovered"

text \<open>
  \<^verbatim>\<open>typeof result === 'string' ? JSON.parse(result) : result\<close>. \<^verbatim>\<open>JSON.parse\<close> is
  the engine's; it is the parameter \<open>parse\<close>, \<open>None\<close> when it throws.
\<close>

definition parse_if_string :: "(string \<Rightarrow> json option) \<Rightarrow> json \<Rightarrow> (json, 'x) outcome" where
  "parse_if_string parse result =
     (case result of
        JStr s \<Rightarrow> (case parse s of None \<Rightarrow> Rejected SyntaxError | Some d \<Rightarrow> Resolved d)
      | _ \<Rightarrow> Resolved result)"

section \<open>The backend client\<close>

record client =
  baseUrl :: string
  apiKey :: string

text \<open>\<^verbatim>\<open>baseUrl.endsWith('/') ? baseUrl.slice(0, -1) : baseUrl\<close>\<close>

definition MobSFClient :: "string \<Rightarrow> string \<Rightarrow> client" where
  "MobSFClient url0 key =
     \<lparr>baseUrl = (if url0 \<noteq> [] \<and> last url0 = CHR ''/'' then butlast url0 else url0),
      apiKey = key\<rparr>"

definition createMobSFClient :: "string \<Rightarrow> string \<Rightarrow> client" where
  "createMobSFClient url0 key = MobSFClient url0 key"

subsection \<open>Request descriptions\<close>

datatype http_method = GET | POST | PUT | DELETE

text \<open>
  The \<^verbatim>\<open>data\<close> of a request: absent, the text of a \<^verbatim>\<open>URLSearchParams\<close>, or a
  multipart \<^verbatim>\<open>FormData\<close> whose one field \<^verbatim>\<open>file\<close> streams the file at a path.
\<close>

datatype body = NoBody | FormString string | Multipart string

datatype response_type = ArrayBuffer

record request =
  url :: string
  http_method :: http_method
  headers :: "(string \<times> string) list"
  data :: body
  params :: "(string \<times> number) list option"
  responseType :: "response_type option"

text \<open>
  An object literal \<^verbatim>\<open>{ ...obj, ...src }\<close>: a later property replaces the value of an
  earlier one of the same name in place, a new name is appended.
\<close>

definition spread :: "(string \<times> 'v) list \<Rightarrow> (string \<times> 'v) list \<Rightarrow> (string \<times> 'v) list" where
  "spread obj src = foldl (\<lambda>acc (k, v). AList.update k v acc) obj src"

subsection \<open>\<^verbatim>\<open>URLSearchParams.toString()\<close>\<close>

definition upper_hex :: "nat \<Rightarrow> char" where
  "upper_hex n = ''0123456789ABCDEF'' ! (n mod 16)"

definition form_unreserved :: "char \<Rightarrow> bool" where
  "form_unreserved c =
     (c \<in> set ''abcdefghijklmnopqrstuvwxyzABCDEFGHIJKLMNOPQRSTUVWXYZ0123456789*-._'')"

definition form_encode_char :: "char \<Rightarrow> string" where
  "form_encode_char c =
     (if form_unreserved c then [c]
      else if c = CHR '' '' then ''+''
      else [CHR ''%'', upper_hex (of_char c div 16), upper_hex (of_char c mod 16)])"

definition form_encode :: "string \<Rightarrow> string" where
  "form_encode s = concat (map form_encode_char s)"

definition URLSearchParams_toString :: "(string \<times> string) list \<Rightarrow> string" where
  "URLSearchParams_toString entries =
     join ''&'' (map (\<lambda>(k, v). form_encode k @ ''='' @ form_encode v) entries)"

subsection \<open>The request each method builds\<close>

definition createRequestConfig ::
  "client \<Rightarrow> string \<Rightarrow> http_method \<Rightarrow> body \<Rightarrow> (string \<times> string) list \<Rightarrow>
   (string \<times> number) list option \<Rightarrow> request" where
  "createRequestConfig c path m d hs ps =
     \<lparr>url = baseUrl c @ path,
      http_method = m,
      headers = spread [(''Authorization'', apiKey c), (''X-Mobsf-Api-Key'', apiKey c),
                        (''Content-Type'', ''application/json'')] hs,
      data = d,
      params = ps,
      responseType = None\<rparr>"

text \<open>
  One constructor per method of the client, with the method's arguments. The headers that
  \<^verbatim>\<open>formData.getHeaders()\<close> returns belong to the multipart library; they are the second
  argument of \<open>UploadFile\<close>.
\<close>

datatype call =
    UploadFile string "(string \<times> string) list"
  | GetScanLogs string
  | GenerateJsonReport string
  | GetRecentScans number number
  | SearchScanResult string
  | DeleteScan string
  | GetScorecard string
  | GeneratePdfReport string
  | ViewSource string string string
  | GetScanTasks
  | CompareApps string string
  | SuppressByRule string string string
  | SuppressByFiles string string string
  | ListSuppressions string
  | DeleteSuppression string string string string

text \<open>The header literal and the form body that the url-encoded POST methods share.\<close>

definition form_headers :: "client \<Rightarrow> (string \<times> string) list" where
  "form_headers c =
     [(''Authorization'', apiKey c), (''X-Mobsf-Api-Key'', apiKey c),
      (''Content-Type'', ''application/x-www-form-urlencoded'')]"

definition form_post :: "client \<Rightarrow> string \<Rightarrow> (string \<times> string) list \<Rightarrow> request" where
  "form_post c path entries =
     \<lparr>url = baseUrl c @ path,
      http_method = POST,
      headers = form_headers c,
      data = FormString (URLSearchParams_toString entries),
      params = None,
      responseType = None\<rparr>"

fun config :: "client \<Rightarrow> call \<Rightarrow> request" where
  "config c (UploadFile filePath formHeaders) =
     \<lparr>url = baseUrl c @ ''/api/v1/upload'',
      http_method = POST,
      headers = spread [(''Authorization'', apiKey c), (''X-Mobsf-Api-Key'', apiKey c)] formHeaders,
      data = Multipart filePath,
      params = None,
      responseType = None\<rparr>"
| "config c (GetScanLogs hash) = form_post c ''/api/v1/scan_logs'' [(''hash'', hash)]"
| "config c (GenerateJsonReport hash) = form_post c ''/api/v1/report_json'' [(''hash'', hash)]"
| "config c (GetRecentScans page pageSize) =
     createRequestConfig c ''/api/v1/scans'' GET NoBody
       [(''Authorization'', apiKey c), (''X-Mobsf-Api-Key'', apiKey c)]
       (Some [(''page'', page), (''page_size'', pageSize)])"
| "config c (SearchScanResult query) = form_post c ''/api/v1/search'' [(''query'', query)]"
| "config c (DeleteScan hash) = form_post c ''/api/v1/delete_scan'' [(''hash'', hash)]"
| "config c (GetScorecard hash) = form_post c ''/api/v1/scorecard'' [(''hash'', hash)]"
| "config c (GeneratePdfReport hash) =
     \<lparr>url = baseUrl c @ ''/api/v1/download_pdf'',
      http_method = POST,
      headers = form_headers c @ [(''Accept'', ''application/pdf'')],
      data = FormString (URLSearchParams_toString [(''hash'', hash)]),
      params = None,
      responseType = Some ArrayBuffer\<rparr>"
| "config c (ViewSource hash file type) =
     form_post c ''/api/v1/view_source'' [(''hash'', hash), (''file'', file), (''type'', type)]"
| "config c GetScanTasks =
     \<lparr>url = baseUrl c @ ''/api/v1/tasks'',
      http_method = POST,
      headers = form_headers c,
      data = NoBody,
      params = None,
      responseType = None\<rparr>"
| "config c (CompareApps hash1 hash2) =
     form_post c ''/api/v1/compare'' [(''hash1'', hash1), (''hash2'', hash2)]"
| "config c (SuppressByRule hash type rule) =
     form_post c ''/api/v1/suppress_by_rule'' [(''hash'', hash), (''type'', type), (''rule'', rule)]"
| "config c (SuppressByFiles hash type rule) =
     form_post c ''/api/v1/suppress_by_files'' [(''hash'', hash), (''type'', type), (''rule'', rule)]"
| "config c (ListSuppressions hash) =
     form_post c ''/api/v1/list_suppressions'' [(''hash'', hash)]"
| "config c (DeleteSuppression hash type rule kind) =
     form_post c ''/api/v1/delete_suppression''
       [(''hash'', hash), (''type'', type), (''rule'', rule), (''kind'', kind)]"

subsection \<open>Sending a request\<close>

text \<open>
  What \<^verbatim>\<open>await axios(config)\<close> does is the backend's and the HTTP library's: it is the
  parameter \<open>axios\<close>. \<open>Response d\<close> is a response with \<^verbatim>\<open>response.data = d\<close>;
  \<open>AxiosError r m\<close> is an error that \<^verbatim>\<open>axios.isAxiosError\<close> accepts, with message \<open>m\<close> and
  \<^verbatim>\<open>error.response?.data\<close> equal to \<open>r\<close> (\<open>None\<close> when there is no response);
  \<open>Exception e\<close> is any other exception.
\<close>

datatype ('d, 'x) axios_outcome = Response 'd | AxiosError "'d option" string | Exception 'x

definition sendRequest ::
  "(request \<Rightarrow> (json, 'x) axios_outcome) \<Rightarrow> request \<Rightarrow> (json, 'x) outcome" where
  "sendRequest axios cfg =
     (case axios cfg of
        Response d \<Rightarrow> Resolved d
      | AxiosError r message \<Rightarrow>
          Rejected (Error (''MobSF API Error: '' @
            (case r of
               Some d \<Rightarrow> if truthy_json d then stringify d else message
             | None \<Rightarrow> message)))
      | Exception e \<Rightarrow> Rejected (Thrown e))"

text \<open>
  Every method but \<^verbatim>\<open>generatePdfReport\<close> ends in \<^verbatim>\<open>return this.sendRequest(config)\<close>
  with the request it has built.
\<close>

definition perform ::
  "(request \<Rightarrow> (json, 'x) axios_outcome) \<Rightarrow> client \<Rightarrow> call \<Rightarrow> (json, 'x) outcome" where
  "perform axios c cl = sendRequest axios (config c cl)"

abbreviation "uploadFile axios c filePath formHeaders \<equiv> perform axios c (UploadFile filePath formHeaders)"
abbreviation "getScanLogs axios c hash \<equiv> perform axios c (GetScanLogs hash)"
abbreviation "generateJsonReport axios c hash \<equiv> perform axios c (GenerateJsonReport hash)"
abbreviation "getRecentScans axios c page pageSize \<equiv> perform axios c (GetRecentScans page pageSize)"
abbreviation "searchScanResult axios c query \<equiv> perform axios c (SearchScanResult query)"
abbreviation "deleteScan axios c hash \<equiv> perform axios c (DeleteScan hash)"
abbreviation "getScorecard axios c hash \<equiv> perform axios c (GetScorecard hash)"
abbreviation "viewSource axios c hash file type \<equiv> perform axios c (ViewSource hash file type)"
abbreviation "getScanTasks axios c \<equiv> perform axios c GetScanTasks"
abbreviation "compareApps axios c hash1 hash2 \<equiv> perform axios c (CompareApps hash1 hash2)"
abbreviation "suppressByRule axios c hash type rule \<equiv> perform axios c (SuppressByRule hash type rule)"
abbreviation "suppressByFiles axios c hash type rule \<equiv> perform axios c (SuppressByFiles hash type rule)"
abbreviation "listSuppressions axios c hash \<equiv> perform axios c (ListSuppressions hash)"
abbreviation "deleteSuppression axios c hash type rule kind \<equiv>
  perform axios c (DeleteSuppression hash type rule kind)"

subsection \<open>The PDF report: a response of raw bytes\<close>

type_synonym buffer = "8 word list"

fun decimal :: "nat \<Rightarrow> string" where
  "decimal n =
     (if n < 10 then [''0123456789'' ! n]
      else decimal (n div 10) @ [''0123456789'' ! (n mod 10)])"

text \<open>
  With \<^verbatim>\<open>responseType: 'arraybuffer'\<close> the data of a response, also of a failed one, is a
  \<^verbatim>\<open>Buffer\<close>: an object, so always truthy, which \<^verbatim>\<open>JSON.stringify\<close> serialises through
  its \<^verbatim>\<open>toJSON\<close> method as an object of its type tag and its bytes.
\<close>

definition Buffer_toJSON :: "buffer \<Rightarrow> json" where
  "Buffer_toJSON bs =
     JObj [(''type'', JStr ''Buffer''),
           (''data'', JArr (map (\<lambda>b. JNum (Finite (decimal (unat b)))) bs))]"

definition generatePdfReport ::
  "(request \<Rightarrow> (buffer, 'x) axios_outcome) \<Rightarrow> client \<Rightarrow> string \<Rightarrow> (buffer, 'x) outcome" where
  "generatePdfReport axios c hash =
     (case axios (config c (GeneratePdfReport hash)) of
        Response d \<Rightarrow> Resolved d
      | AxiosError r message \<Rightarrow>
          Rejected (Error (''MobSF API Error: '' @
            (case r of
               Some d \<Rightarrow> stringify (Buffer_toJSON d)
             | None \<Rightarrow> message)))
      | Exception e \<Rightarrow> Rejected (Thrown e))"

text \<open>\<^verbatim>\<open>buffer.toString('base64')\<close>: three bytes give four characters, the rest is padded.\<close>

definition base64_char :: "nat \<Rightarrow> char" where
  "base64_char n = ''ABCDEFGHIJKLMNOPQRSTUVWXYZabcdefghijklmnopqrstuvwxyz0123456789+/'' ! n"

fun toString_base64 :: "buffer \<Rightarrow> string" where
  "toString_base64 [] = []"
| "toString_base64 [a] =
     [base64_char (unat a div 4), base64_char (unat a mod 4 * 16), CHR ''='', CHR ''='']"
| "toString_base64 [a, b] =
     [base64_char (unat a div 4), base64_char (unat a mod 4 * 16 + unat b div 16),
      base64_char (unat b mod 16 * 4), CHR ''='']"
| "toString_base64 (a # b # c # rest) =
     [base64_char (unat a div 4), base64_char (unat a mod 4 * 16 + unat b div 16),
      base64_char (unat b mod 16 * 4 + unat c div 64), base64_char (unat c mod 64)]
     @ toString_base64 rest"

section \<open>The tools\<close>

text \<open>
  A handler resolves with \<^verbatim>\<open>{ content: [item] }\<close>; an item is a text item with its
  \<^verbatim>\<open>text\<close>, or a resource. A handler takes the \<open>axios\<close> of its client call and the client
  \<open>c\<close> (the program's \<^verbatim>\<open>mobsfClient\<close>) before the tool's own arguments.
\<close>

record resource =
  uri :: string
  blob :: string
  mimeType :: string

datatype content = TextContent jsval | ResourceContent resource

subsection \<open>Tools that shape the client's result\<close>

definition tool_uploadFile ::
  "(request \<Rightarrow> (json, 'x) axios_outcome) \<Rightarrow> client \<Rightarrow> string \<Rightarrow> (string \<times> string) list \<Rightarrow> (content list, 'x) outcome" where
  "tool_uploadFile axios c file formHeaders =
     and_then (uploadFile axios c file formHeaders)
       (\<lambda>result. Resolved [TextContent (JSON_stringify (Val result))])"

definition tool_getScanLogs ::
  "(request \<Rightarrow> (json, 'x) axios_outcome) \<Rightarrow> client \<Rightarrow> string \<Rightarrow> (content list, 'x) outcome" where
  "tool_getScanLogs axios c hash =
     and_then (getScanLogs axios c hash)
       (\<lambda>result. Resolved [TextContent (JSON_stringify (Val result))])"

definition tool_getJsonReport ::
  "(request \<Rightarrow> (json, 'x) axios_outcome) \<Rightarrow> client \<Rightarrow> string \<Rightarrow> (content list, 'x) outcome" where
  "tool_getJsonReport axios c hash =
     and_then (generateJsonReport axios c hash)
       (\<lambda>result. Resolved [TextContent (JSON_stringify (Val result))])"

definition tool_getRecentScans ::
  "(request \<Rightarrow> (json, 'x) axios_outcome) \<Rightarrow> client \<Rightarrow> number \<Rightarrow> number \<Rightarrow> (content list, 'x) outcome" where
  "tool_getRecentScans axios c page pageSize =
     and_then (getRecentScans axios c page pageSize)
       (\<lambda>result. Resolved [TextContent (JSON_stringify (Val result))])"

definition tool_searchScanResult ::
  "(request \<Rightarrow> (json, 'x) axios_outcome) \<Rightarrow> client \<Rightarrow> string \<Rightarrow> (content list, 'x) outcome" where
  "tool_searchScanResult axios c query =
     and_then (searchScanResult axios c query)
       (\<lambda>result. Resolved [TextContent (JSON_stringify (Val result))])"

definition tool_deleteScan ::
  "(request \<Rightarrow> (json, 'x) axios_outcome) \<Rightarrow> client \<Rightarrow> string \<Rightarrow> (content list, 'x) outcome" where
  "tool_deleteScan axios c hash =
     and_then (deleteScan axios c hash)
       (\<lambda>result. Resolved [TextContent (JSON_stringify (Val result))])"

definition tool_getScorecard ::
  "(request \<Rightarrow> (json, 'x) axios_outcome) \<Rightarrow> client \<Rightarrow> string \<Rightarrow> (content list, 'x) outcome" where
  "tool_getScorecard axios c hash =
     and_then (getScorecard axios c hash)
       (\<lambda>result. Resolved [TextContent (JSON_stringify (Val result))])"

definition tool_generatePdfReport ::
  "(request \<Rightarrow> (buffer, 'x) axios_outcome) \<Rightarrow> client \<Rightarrow> string \<Rightarrow> (content list, 'x) outcome" where
  "tool_generatePdfReport axios c hash =
     and_then (generatePdfReport axios c hash)
       (\<lambda>buffer. Resolved [ResourceContent
          \<lparr>uri = ''mobsf_report_'' @ hash @ ''.pdf'',
           blob = toString_base64 buffer,
           mimeType = ''application/pdf''\<rparr>])"

text \<open>\<^verbatim>\<open>typeof result === 'string' ? result : JSON.stringify(result, null, 2)\<close>\<close>

definition string_or_stringify :: "json \<Rightarrow> jsval" where
  "string_or_stringify result =
     (case result of JStr s \<Rightarrow> String s | _ \<Rightarrow> JSON_stringify (Val result))"

definition tool_viewSource ::
  "(request \<Rightarrow> (json, 'x) axios_outcome) \<Rightarrow> client \<Rightarrow> string \<Rightarrow> string \<Rightarrow> string \<Rightarrow> (content list, 'x) outcome" where
  "tool_viewSource axios c hash file type =
     and_then (viewSource axios c hash file type)
       (\<lambda>result. Resolved [TextContent (string_or_stringify result)])"

definition tool_getScanTasks ::
  "(request \<Rightarrow> (json, 'x) axios_outcome) \<Rightarrow> client \<Rightarrow> (content list, 'x) outcome" where
  "tool_getScanTasks axios c =
     and_then (getScanTasks axios c) (\<lambda>result. Resolved [TextContent (Val result)])"

definition tool_compareApps ::
  "(request \<Rightarrow> (json, 'x) axios_outcome) \<Rightarrow> client \<Rightarrow> string \<Rightarrow> string \<Rightarrow> (content list, 'x) outcome" where
  "tool_compareApps axios c hash1 hash2 =
     and_then (compareApps axios c hash1 hash2) (\<lambda>result. Resolved [TextContent (Val result)])"

definition tool_suppressByRule ::
  "(request \<Rightarrow> (json, 'x) axios_outcome) \<Rightarrow> client \<Rightarrow> string \<Rightarrow> string \<Rightarrow> string \<Rightarrow> (content list, 'x) outcome" where
  "tool_suppressByRule axios c hash type rule =
     and_then (suppressByRule axios c hash type rule)
       (\<lambda>result. Resolved [TextContent (string_or_stringify result)])"

definition tool_suppressByFiles ::
  "(request \<Rightarrow> (json, 'x) axios_outcome) \<Rightarrow> client \<Rightarrow> string \<Rightarrow> string \<Rightarrow> string \<Rightarrow> (content list, 'x) outcome" where
  "tool_suppressByFiles axios c hash type rule =
     and_then (suppressByFiles axios c hash type rule)
       (\<lambda>result. Resolved [TextContent (string_or_stringify result)])"

definition tool_listSuppressions ::
  "(request \<Rightarrow> (json, 'x) axios_outcome) \<Rightarrow> client \<Rightarrow> string \<Rightarrow> (content list, 'x) outcome" where
  "tool_listSuppressions axios c hash =
     and_then (listSuppressions axios c hash)
       (\<lambda>result. Resolved [TextContent (string_or_stringify result)])"

definition tool_deleteSuppression ::
  "(request \<Rightarrow> (json, 'x) axios_outcome) \<Rightarrow> client \<Rightarrow> string \<Rightarrow> string \<Rightarrow> string \<Rightarrow> string \<Rightarrow> (content list, 'x) outcome" where
  "tool_deleteSuppression axios c hash type rule kind =
     and_then (deleteSuppression axios c hash type rule kind)
       (\<lambda>result. Resolved [TextContent (string_or_stringify result)])"

subsection \<open>Tools that read the report\<close>

definition not_found :: "string \<Rightarrow> string" where
  "not_found section = ''Section '' @ [CHR 0x27] @ section @ [CHR 0x27] @ '' not found in report.''"

definition tool_getJsonReportSection ::
  "(string \<Rightarrow> json option) \<Rightarrow> (request \<Rightarrow> (json, 'x) axios_outcome) \<Rightarrow> client \<Rightarrow> string \<Rightarrow> string \<Rightarrow> (content list, 'x) outcome" where
  "tool_getJsonReportSection parse axios c hash section =
     and_then (generateJsonReport axios c hash) (\<lambda>result.
     and_then (parse_if_string parse result) (\<lambda>d.
     and_then (get_property d section) (\<lambda>sectionData.
       if \<not> truthy sectionData
       then Resolved [TextContent (String (not_found section))]
       else Resolved [TextContent (JSON_stringify sectionData)])))"

text \<open>
  \<^verbatim>\<open>Object.keys\<close>: the own enumerable property names; the indices of an array; none for a
  number or a boolean; a \<^verbatim>\<open>TypeError\<close> for \<^verbatim>\<open>null\<close>. The keys of a string are the
  indices of its UTF-16 code units, which a list of bytes does not give.
\<close>

fun Object_keys :: "json \<Rightarrow> (string list, 'x) outcome" where
  "Object_keys JNull = Rejected TypeError"
| "Object_keys (JObj kvs) = Resolved (map fst kvs)"
| "Object_keys (JArr xs) = Resolved (map decimal [0..<length xs])"
| "Object_keys (JBool b) = Resolved []"
| "Object_keys (JNum n) = Resolved []"
| "Object_keys (JStr s) = Uncovered"

definition tool_getJsonReportSections ::
  "(string \<Rightarrow> json option) \<Rightarrow> (request \<Rightarrow> (json, 'x) axios_outcome) \<Rightarrow> client \<Rightarrow> string \<Rightarrow> (content list, 'x) outcome" where
  "tool_getJsonReportSections parse axios c hash =
     and_then (generateJsonReport axios c hash) (\<lambda>result.
     and_then (parse_if_string parse result) (\<lambda>d.
     and_then (Object_keys d) (\<lambda>sections.
       Resolved [TextContent (JSON_stringify (Val (JArr (map JStr sections))))])))"

text \<open>
  \<^verbatim>\<open>xs.map(f)\<close> calls \<open>f\<close> on the elements in order and stops at the first that throws.
\<close>

fun map_outcome :: "('a \<Rightarrow> ('b, 'x) outcome) \<Rightarrow> 'a list \<Rightarrow> ('b list, 'x) outcome" where
  "map_outcome f [] = Resolved []"
| "map_outcome f (x # xs) =
     and_then (f x) (\<lambda>y. and_then (map_outcome f xs) (\<lambda>ys. Resolved (y # ys)))"

text \<open>
  \<^verbatim>\<open>v.map(f)\<close> on a value read from JSON data: only an array has a \<^verbatim>\<open>map\<close> that can be
  called; on anything else the call throws a \<^verbatim>\<open>TypeError\<close>.
\<close>

fun call_map :: "jsval \<Rightarrow> (json \<Rightarrow> ('b, 'x) outcome) \<Rightarrow> ('b list, 'x) outcome" where
  "call_map (Val (JArr xs)) f = map_outcome f xs"
| "call_map v f = Rejected TypeError"

definition tool_listAllHashes ::
  "(string \<Rightarrow> json option) \<Rightarrow> (request \<Rightarrow> (json, 'x) axios_outcome) \<Rightarrow> client \<Rightarrow> number \<Rightarrow> number \<Rightarrow> (content list, 'x) outcome" where
  "tool_listAllHashes parse axios c page pageSize =
     and_then (getRecentScans axios c page pageSize) (\<lambda>result.
     and_then (parse_if_string parse result) (\<lambda>d.
     and_then (get_property d ''content'') (\<lambda>content.
     and_then (call_map (if truthy content then content else Val (JArr []))
                 (\<lambda>item. get_property item ''MD5'')) (\<lambda>hashes.
       Resolved [TextContent (JSON_stringify (Val (JArr (map array_element hashes))))]))))"

subsection \<open>One tool per known section\<close>

definition jsonSections :: "string list" where
  "jsonSections =
     [''version'', ''title'', ''file_name'', ''app_name'', ''app_type'', ''size'', ''md5'',
      ''sha1'', ''sha256'', ''package_name'', ''main_activity'', ''exported_activities'',
      ''browsable_activities'', ''activities'', ''receivers'', ''providers'', ''services'',
      ''libraries'', ''target_sdk'', ''max_sdk'', ''min_sdk'', ''version_name'',
      ''version_code'', ''permissions'', ''malware_permissions'', ''certificate_analysis'',
      ''manifest_analysis'', ''network_security'', ''binary_analysis'', ''file_analysis'',
      ''android_api'', ''code_analysis'', ''niap_analysis'', ''permission_mapping'', ''urls'',
      ''domains'', ''emails'', ''strings'', ''firebase_urls'', ''exported_count'', ''apkid'',
      ''behaviour'', ''trackers'', ''playstore_details'', ''secrets'', ''logs'', ''sbom'',
      ''average_cvss'', ''appsec'', ''virus_total'', ''base_url'', ''dwd_dir'', ''host_os'']"

definition getJsonSection ::
  "(string \<Rightarrow> json option) \<Rightarrow> (request \<Rightarrow> (json, 'x) axios_outcome) \<Rightarrow> client \<Rightarrow> string \<Rightarrow> string \<Rightarrow> (content list, 'x) outcome" where
  "getJsonSection parse axios c section hash =
     and_then (generateJsonReport axios c hash) (\<lambda>result.
     and_then (parse_if_string parse result) (\<lambda>d.
     and_then (get_property d section) (\<lambda>sectionData.
       Resolved [TextContent (JSON_stringify sectionData)])))"

text \<open>The \<^verbatim>\<open>forEach\<close> over the list: the tools it registers, each name with its handler.\<close>

definition section_tools ::
  "(string \<Rightarrow> json option) \<Rightarrow> (request \<Rightarrow> (json, 'x) axios_outcome) \<Rightarrow> client \<Rightarrow> (string \<times> (string \<Rightarrow> (content list, 'x) outcome)) list" where
  "section_tools parse axios c =
     map (\<lambda>section. (''getJsonSection_'' @ section, getJsonSection parse axios c section))
       jsonSections"

section \<open>Vocabulary of the properties\<close>

text \<open>The path suffix of each method: it depends on the method alone.\<close>

fun api_path :: "call \<Rightarrow> string" where
  "api_path (UploadFile filePath formHeaders) = ''/api/v1/upload''"
| "api_path (GetScanLogs hash) = ''/api/v1/scan_logs''"
| "api_path (GenerateJsonReport hash) = ''/api/v1/report_json''"
| "api_path (GetRecentScans page pageSize) = ''/api/v1/scans''"
| "api_path (SearchScanResult query) = ''/api/v1/search''"
| "api_path (DeleteScan hash) = ''/api/v1/delete_scan''"
| "api_path (GetScorecard hash) = ''/api/v1/scorecard''"
| "api_path (GeneratePdfReport hash) = ''/api/v1/download_pdf''"
| "api_path (ViewSource hash file type) = ''/api/v1/view_source''"
| "api_path GetScanTasks = ''/api/v1/tasks''"
| "api_path (CompareApps hash1 hash2) = ''/api/v1/compare''"
| "api_path (SuppressByRule hash type rule) = ''/api/v1/suppress_by_rule''"
| "api_path (SuppressByFiles hash type rule) = ''/api/v1/suppress_by_files''"
| "api_path (ListSuppressions hash) = ''/api/v1/list_suppressions''"
| "api_path (DeleteSuppression hash type rule kind) = ''/api/v1/delete_suppression''"

text \<open>
  Base64 decoding, the inverse that the property of the PDF tool speaks of: four characters
  of the alphabet give three bytes, and a last group padded with \<^verbatim>\<open>=\<close> gives one or two.
\<close>

fun index_of :: "'a \<Rightarrow> 'a list \<Rightarrow> nat option" where
  "index_of x [] = None"
| "index_of x (y # ys) = (if x = y then Some 0 else map_option Suc (index_of x ys))"

definition base64_value :: "char \<Rightarrow> nat option" where
  "base64_value ch =
     index_of ch ''ABCDEFGHIJKLMNOPQRSTUVWXYZabcdefghijklmnopqrstuvwxyz0123456789+/''"

fun base64_decode :: "string \<Rightarrow> buffer option" where
  "base64_decode [] = Some []"
| "base64_decode (p # q # r # t # rest) =
     (case (base64_value p, base64_value q) of
        (Some i, Some j) \<Rightarrow>
          (if rest = [] \<and> r = CHR ''='' \<and> t = CHR ''=''
           then Some [word_of_nat (i * 4 + j div 16)]
           else (case base64_value r of
              Some k \<Rightarrow>
                (if rest = [] \<and> t = CHR ''=''
                 then Some [word_of_nat (i * 4 + j div 16), word_of_nat (j mod 16 * 16 + k div 4)]
                 else (case (base64_value t, base64_decode rest) of
                    (Some l, Some bytes) \<Rightarrow>
                      Some (word_of_nat (i * 4 + j div 16)
                            # word_of_nat (j mod 16 * 16 + k div 4)
                            # word_of_nat (k mod 4 * 64 + l) # bytes)
                  | _ \<Rightarrow> None))
            | None \<Rightarrow> None))
      | _ \<Rightarrow> None)"
| "base64_decode _ = None"

text \<open>
  Stand-ins for the environment in the examples: a backend that gives the same answer to every
  request, a \<^verbatim>\<open>JSON.parse\<close> that is never reached, and one that knows a single text.
\<close>

definition answers :: "('d, 'x) axios_outcome \<Rightarrow> request \<Rightarrow> ('d, 'x) axios_outcome" where
  [simp]: "answers out cfg = out"

definition parses_nothing :: "string \<Rightarrow> json option" where
  [simp]: "parses_nothing s = None"

definition parses_only :: "string \<Rightarrow> json \<Rightarrow> string \<Rightarrow> json option" where
  [simp]: "parses_only text v s = (if s = text then Some v else None)"

section \<open>Properties\<close>

subsection \<open>Helper facts\<close>

lemma parse_if_string_object [simp]: "parse_if_string parse (JObj kvs) = Resolved (JObj kvs)"
  by (simp add: parse_if_string_def)

lemma parse_if_string_string [simp]:
  "parse s = Some d \<Longrightarrow> parse_if_string parse (JStr s) = Resolved d"
  by (simp add: parse_if_string_def)

lemma perform_response: "axios (config c cl) = Response d \<Longrightarrow> perform axios c cl = Resolved d"
  by (simp add: perform_def sendRequest_def)

lemma MD5_content_not_inherited [simp]:
  "object_prototype ''MD5'' = Undefined" "object_prototype ''content'' = Undefined"
  by (simp_all add: object_prototype_def)

lemma map_outcome_MD5:
  "map_outcome (\<lambda>item. get_property item ''MD5'') (map JObj items)
     = Resolved (map (\<lambda>item. case map_of item ''MD5'' of Some h \<Rightarrow> Val h | None \<Rightarrow> Undefined) items)"
  by (induction items) (auto split: option.splits)

lemma map_of_tagged:
  "x \<in> set xs \<Longrightarrow> map_of (map (\<lambda>y. (p @ y, g y)) xs) (p @ x) = Some (g x)"
  by (induction xs) auto

lemma jsonSections_not_inherited:
  "section \<in> set jsonSections \<Longrightarrow> object_prototype section = Undefined"
  by (auto simp: jsonSections_def object_prototype_def)

subsection \<open>The generic section tool\<close>

text \<open>
  C1. The claim asks the generic tool for the serialised value of every section that is a key
  of the report, and for the "not found" text for every name that is not. On the report
  \<^verbatim>\<open>{"max_sdk": ""}\<close> the handler does neither. The key \<^verbatim>\<open>max_sdk\<close> is in the report:
  \<^verbatim>\<open>getJsonReportSections\<close> lists it and the tool \<^verbatim>\<open>getJsonSection_max_sdk\<close>, built
  from the same lines, answers with its serialisation \<^verbatim>\<open>""\<close>; the generic tool answers
  \<^verbatim>\<open>Section 'max_sdk' not found in report.\<close> The name \<^verbatim>\<open>constructor\<close> is no key of the
  report: the generic tool reads the function inherited from \<^verbatim>\<open>Object.prototype\<close>, which
  is truthy and serialises to \<^verbatim>\<open>undefined\<close>, so the text of the item is undefined.
\<close>

theorem getJsonReportSection_failing_input:
  "tool_getJsonReportSection parses_nothing
     (answers (Response (JObj [(''max_sdk'', JStr [])]) :: (json, unit) axios_outcome))
     (MobSFClient ''http://localhost:8000/'' ''key'') ''abc'' ''max_sdk''
     = Resolved [TextContent (String ''Section 'max_sdk' not found in report.'')]
   \<and> getJsonSection parses_nothing
     (answers (Response (JObj [(''max_sdk'', JStr [])]) :: (json, unit) axios_outcome))
     (MobSFClient ''http://localhost:8000/'' ''key'') ''max_sdk'' ''abc''
     = Resolved [TextContent (String [CHR 0x22, CHR 0x22])]
   \<and> tool_getJsonReportSections parses_nothing
     (answers (Response (JObj [(''max_sdk'', JStr [])]) :: (json, unit) axios_outcome))
     (MobSFClient ''http://localhost:8000/'' ''key'') ''abc''
     = Resolved [TextContent (String (stringify (JArr [JStr ''max_sdk''])))]
   \<and> tool_getJsonReportSection parses_nothing
     (answers (Response (JObj [(''max_sdk'', JStr [])]) :: (json, unit) axios_outcome))
     (MobSFClient ''http://localhost:8000/'' ''key'') ''abc'' ''constructor''
     = Resolved [TextContent Undefined]"
  by (simp add: tool_getJsonReportSection_def getJsonSection_def tool_getJsonReportSections_def
      perform_response object_prototype_def not_found_def stringify_def quote_def)

text \<open>
  Where the generic tool and the expected behaviour agree. Let \<^verbatim>\<open>generateJsonReport\<close>
  resolve with the report, an object or a string that parses to one. For a name that is a key
  of the report with a truthy value, the tool resolves with the indented JSON text of that
  value. For a name that is no key of the report and no property name of
  \<^verbatim>\<open>Object.prototype\<close>, it resolves with the "not found" text.
\<close>

lemma getJsonReportSection_truthy_or_absent:
  assumes "generateJsonReport axios c hash = Resolved result"
    and "result = JObj kvs \<or> (result = JStr s \<and> parse s = Some (JObj kvs))"
  shows "(map_of kvs name = Some v \<and> truthy_json v \<longrightarrow>
           tool_getJsonReportSection parse axios c hash name
             = Resolved [TextContent (String (stringify v))])
       \<and> (map_of kvs name = None \<and> object_prototype name = Undefined \<longrightarrow>
           tool_getJsonReportSection parse axios c hash name
             = Resolved [TextContent (String (not_found name))])"
  using assms by (auto simp: tool_getJsonReportSection_def)

lemma getJsonReportSection_truthy_or_absent_example:
  "tool_getJsonReportSection parses_nothing
     (answers (Response (JObj [(''permissions'', JArr [JStr ''INTERNET'']), (''max_sdk'', JStr [])])
        :: (json, unit) axios_outcome))
     (MobSFClient ''http://localhost:8000/'' ''key'') ''abc'' ''permissions''
     = Resolved [TextContent (String (stringify (JArr [JStr ''INTERNET''])))]
   \<and> tool_getJsonReportSection parses_nothing
     (answers (Response (JObj [(''permissions'', JArr [JStr ''INTERNET'']), (''max_sdk'', JStr [])])
        :: (json, unit) axios_outcome))
     (MobSFClient ''http://localhost:8000/'' ''key'') ''abc'' ''urls''
     = Resolved [TextContent (String ''Section 'urls' not found in report.'')]"
proof -
  have r: "generateJsonReport
     (answers (Response (JObj [(''permissions'', JArr [JStr ''INTERNET'']), (''max_sdk'', JStr [])])
        :: (json, unit) axios_outcome))
     (MobSFClient ''http://localhost:8000/'' ''key'') ''abc''
     = Resolved (JObj [(''permissions'', JArr [JStr ''INTERNET'']), (''max_sdk'', JStr [])])"
    by (simp add: perform_response)
  show ?thesis
    using getJsonReportSection_truthy_or_absent [OF r, where name = "''permissions''"
        and v = "JArr [JStr ''INTERNET'']" and parse = "parses_nothing"]
      getJsonReportSection_truthy_or_absent [OF r, where name = "''urls''"
        and parse = "parses_nothing"]
    by (simp add: object_prototype_def not_found_def)
qed



subsection \<open>The list of section names\<close>

text \<open>
  C3. When \<^verbatim>\<open>generateJsonReport\<close> resolves with the report (an object, or a string that
  parses to one), \<^verbatim>\<open>getJsonReportSections\<close> resolves with the indented JSON text of the
  array of the report's top-level keys, in the report's order.
\<close>

theorem getJsonReportSections_keys:
  assumes "generateJsonReport axios c hash = Resolved result"
    and "result = JObj kvs \<or> (result = JStr s \<and> parse s = Some (JObj kvs))"
  shows "tool_getJsonReportSections parse axios c hash
           = Resolved [TextContent (String (stringify (JArr (map JStr (map fst kvs)))))]"
  using assms by (auto simp: tool_getJsonReportSections_def)

theorem getJsonReportSections_keys_witness:
  "tool_getJsonReportSections
     (parses_only ''{...}'' (JObj [(''version'', JStr ''4''), (''title'', JNull)]))
     (answers (Response (JStr ''{...}'') :: (json, unit) axios_outcome))
     (MobSFClient ''http://localhost:8000/'' ''key'') ''abc''
     = Resolved [TextContent (String (stringify (JArr [JStr ''version'', JStr ''title''])))]"
proof -
  have r: "generateJsonReport (answers (Response (JStr ''{...}'') :: (json, unit) axios_outcome))
     (MobSFClient ''http://localhost:8000/'' ''key'') ''abc'' = Resolved (JStr ''{...}'')"
    by (simp add: perform_response)
  show ?thesis
    using getJsonReportSections_keys [OF r,
        where kvs = "[(''version'', JStr ''4''), (''title'', JNull)]" and s = "''{...}''"
        and parse = "parses_only ''{...}'' (JObj [(''version'', JStr ''4''), (''title'', JNull)])"]
    by simp
qed

subsection \<open>The list of hashes\<close>

text \<open>
  C4. When \<^verbatim>\<open>getRecentScans\<close> resolves with a paginated response (an object, or a string
  that parses to one) whose \<^verbatim>\<open>content\<close> is an array of item objects, \<^verbatim>\<open>listAllHashes\<close>
  resolves with the indented JSON text of the array of the items' \<^verbatim>\<open>MD5\<close> values, in
  order (an item without the field gives \<^verbatim>\<open>null\<close>); when the response has no
  \<^verbatim>\<open>content\<close> it resolves with the text \<^verbatim>\<open>[]\<close>.
\<close>

theorem listAllHashes_maps_MD5:
  assumes "getRecentScans axios c page pageSize = Resolved result"
    and "result = JObj kvs \<or> (result = JStr s \<and> parse s = Some (JObj kvs))"
  shows "(map_of kvs ''content'' = Some (JArr (map JObj items)) \<longrightarrow>
            tool_listAllHashes parse axios c page pageSize
              = Resolved [TextContent (String (stringify (JArr
                  (map (\<lambda>item. case map_of item ''MD5'' of Some h \<Rightarrow> h | None \<Rightarrow> JNull) items))))])
       \<and> (map_of kvs ''content'' = None \<longrightarrow>
            tool_listAllHashes parse axios c page pageSize = Resolved [TextContent (String ''[]'')])"
proof -
  have elems: "map array_element
      (map (\<lambda>item. case map_of item ''MD5'' of Some h \<Rightarrow> Val h | None \<Rightarrow> Undefined) items)
      = map (\<lambda>item. case map_of item ''MD5'' of Some h \<Rightarrow> h | None \<Rightarrow> JNull) items"
    by (auto split: option.splits)
  have present: "map_of kvs ''content'' = Some (JArr (map JObj items)) \<longrightarrow>
            tool_listAllHashes parse axios c page pageSize
              = Resolved [TextContent (String (stringify (JArr
                  (map (\<lambda>item. case map_of item ''MD5'' of Some h \<Rightarrow> h | None \<Rightarrow> JNull) items))))]"
    using assms by (auto simp: tool_listAllHashes_def map_outcome_MD5 elems simp del: map_map)
  have absent: "map_of kvs ''content'' = None \<longrightarrow>
            tool_listAllHashes parse axios c page pageSize = Resolved [TextContent (String ''[]'')]"
    using assms by (auto simp: tool_listAllHashes_def stringify_def)
  show ?thesis using present absent by blast
qed

text \<open>
  The two responses of the claim: \<^verbatim>\<open>content = [{MD5:"a"},{MD5:"b"}]\<close> gives the array of
  \<^verbatim>\<open>"a"\<close> and \<^verbatim>\<open>"b"\<close>, each on a line of its own, and a response without
  \<^verbatim>\<open>content\<close> gives \<^verbatim>\<open>[]\<close>.
\<close>

theorem listAllHashes_maps_MD5_witness:
  "tool_listAllHashes parses_nothing
     (answers (Response (JObj [(''content'', JArr [JObj [(''MD5'', JStr ''a'')], JObj [(''MD5'', JStr ''b'')]])])
        :: (json, unit) axios_outcome))
     (MobSFClient ''http://localhost:8000/'' ''key'') (Finite ''1'') (Finite ''10'')
     = Resolved [TextContent (String
         ([CHR ''['', CHR 0x0A] @ ''  '' @ [CHR 0x22, CHR ''a'', CHR 0x22, CHR '','', CHR 0x0A]
            @ ''  '' @ [CHR 0x22, CHR ''b'', CHR 0x22, CHR 0x0A, CHR '']'']))]
   \<and> tool_listAllHashes parses_nothing
     (answers (Response (JObj [(''count'', JNum (Finite ''0''))]) :: (json, unit) axios_outcome))
     (MobSFClient ''http://localhost:8000/'' ''key'') (Finite ''1'') (Finite ''10'')
     = Resolved [TextContent (String ''[]'')]"
proof -
  have r1: "getRecentScans
     (answers (Response (JObj [(''content'', JArr [JObj [(''MD5'', JStr ''a'')], JObj [(''MD5'', JStr ''b'')]])])
        :: (json, unit) axios_outcome))
     (MobSFClient ''http://localhost:8000/'' ''key'') (Finite ''1'') (Finite ''10'')
     = Resolved (JObj [(''content'', JArr [JObj [(''MD5'', JStr ''a'')], JObj [(''MD5'', JStr ''b'')]])])"
    by (simp add: perform_response)
  have r2: "getRecentScans
     (answers (Response (JObj [(''count'', JNum (Finite ''0''))]) :: (json, unit) axios_outcome))
     (MobSFClient ''http://localhost:8000/'' ''key'') (Finite ''1'') (Finite ''10'')
     = Resolved (JObj [(''count'', JNum (Finite ''0''))])"
    by (simp add: perform_response)
  show ?thesis
    using listAllHashes_maps_MD5 [OF r1, where parse = "parses_nothing"
        and items = "[[(''MD5'', JStr ''a'')], [(''MD5'', JStr ''b'')]]"]
      listAllHashes_maps_MD5 [OF r2, where parse = "parses_nothing"]
    by (simp add: stringify_def quote_def quote_char_def)
qed

subsection \<open>The tools of the known sections\<close>

text \<open>
  C9. For each name in the list of known sections, the tool \<^verbatim>\<open>getJsonSection_<name>\<close> is
  registered with the handler of that section. When \<^verbatim>\<open>generateJsonReport\<close> resolves with
  the report (an object, or a string that parses to one), the handler resolves with the
  indented JSON text of the section's value; when the section is absent it still resolves,
  with the undefined result of serialising \<^verbatim>\<open>undefined\<close>, and not with the "not found"
  message of the generic tool.
\<close>

theorem section_tools_serialize:
  assumes "name \<in> set jsonSections"
    and "generateJsonReport axios c hash = Resolved result"
    and "result = JObj kvs \<or> (result = JStr s \<and> parse s = Some (JObj kvs))"
  shows "map_of (section_tools parse axios c) (''getJsonSection_'' @ name)
           = Some (getJsonSection parse axios c name)
       \<and> getJsonSection parse axios c name hash = Resolved [TextContent
            (case map_of kvs name of Some v \<Rightarrow> String (stringify v) | None \<Rightarrow> Undefined)]
       \<and> (map_of kvs name = None \<longrightarrow>
            getJsonSection parse axios c name hash
              \<noteq> Resolved [TextContent (String (not_found name))])"
proof -
  have reg: "map_of (section_tools parse axios c) (''getJsonSection_'' @ name)
               = Some (getJsonSection parse axios c name)"
    unfolding section_tools_def using assms(1) by (rule map_of_tagged)
  have run: "getJsonSection parse axios c name hash = Resolved [TextContent
            (case map_of kvs name of Some v \<Rightarrow> String (stringify v) | None \<Rightarrow> Undefined)]"
    using assms(2,3) jsonSections_not_inherited[OF assms(1)]
    by (auto simp: getJsonSection_def split: option.splits)
  show ?thesis using reg run by auto
qed

theorem section_tools_serialize_witness:
  "map_of (section_tools parses_nothing
       (answers (Response (JObj [(''permissions'', JArr [JStr ''INTERNET'']), (''max_sdk'', JStr [])])
          :: (json, unit) axios_outcome))
       (MobSFClient ''http://localhost:8000/'' ''key'')) ''getJsonSection_max_sdk''
     = Some (getJsonSection parses_nothing
       (answers (Response (JObj [(''permissions'', JArr [JStr ''INTERNET'']), (''max_sdk'', JStr [])])))
       (MobSFClient ''http://localhost:8000/'' ''key'') ''max_sdk'')
   \<and> getJsonSection parses_nothing
       (answers (Response (JObj [(''permissions'', JArr [JStr ''INTERNET'']), (''max_sdk'', JStr [])])
          :: (json, unit) axios_outcome))
       (MobSFClient ''http://localhost:8000/'' ''key'') ''max_sdk'' ''abc''
     = Resolved [TextContent (String [CHR 0x22, CHR 0x22])]
   \<and> getJsonSection parses_nothing
       (answers (Response (JObj [(''permissions'', JArr [JStr ''INTERNET'']), (''max_sdk'', JStr [])])
          :: (json, unit) axios_outcome))
       (MobSFClient ''http://localhost:8000/'' ''key'') ''urls'' ''abc''
     = Resolved [TextContent Undefined]"
proof -
  have r: "generateJsonReport
     (answers (Response (JObj [(''permissions'', JArr [JStr ''INTERNET'']), (''max_sdk'', JStr [])])
        :: (json, unit) axios_outcome))
     (MobSFClient ''http://localhost:8000/'' ''key'') ''abc''
     = Resolved (JObj [(''permissions'', JArr [JStr ''INTERNET'']), (''max_sdk'', JStr [])])"
    by (simp add: perform_response)
  have m1: "''max_sdk'' \<in> set jsonSections" and m2: "''urls'' \<in> set jsonSections"
    by (simp_all add: jsonSections_def)
  show ?thesis
    using section_tools_serialize [OF m1 r, where parse = "parses_nothing"]
      section_tools_serialize [OF m2 r, where parse = "parses_nothing"]
    by (simp add: stringify_def quote_def)
qed

subsection \<open>Failures of the backend\<close>

text \<open>
  C5 (amended). For every method that sends its request through \<^verbatim>\<open>sendRequest\<close> (all but
  \<^verbatim>\<open>generatePdfReport\<close>): a failure of the HTTP library whose response data is truthy is
  rejected with the message \<^verbatim>\<open>MobSF API Error: \<close> followed by the indented JSON text of
  that data; a failure whose response data is falsy (\<^verbatim>\<open>null\<close>, \<^verbatim>\<open>false\<close>, \<^verbatim>\<open>0\<close>,
  the empty string) or that has no response is rejected with the same prefix followed by the
  underlying message; any other exception is passed on unchanged. For
  \<^verbatim>\<open>generatePdfReport\<close> the last two hold as well.
\<close>

theorem sendRequest_failure_message:
  assumes "\<forall>hash. cl \<noteq> GeneratePdfReport hash"
  shows "(axios (config c cl) = AxiosError (Some d) m \<and> truthy_json d \<longrightarrow>
            perform axios c cl = Rejected (Error (''MobSF API Error: '' @ stringify d)))
       \<and> (axios (config c cl) = AxiosError (Some d) m \<and> \<not> truthy_json d \<longrightarrow>
            perform axios c cl = Rejected (Error (''MobSF API Error: '' @ m)))
       \<and> (axios (config c cl) = AxiosError None m \<longrightarrow>
            perform axios c cl = Rejected (Error (''MobSF API Error: '' @ m)))
       \<and> (axios (config c cl) = Exception e \<longrightarrow> perform axios c cl = Rejected (Thrown e))
       \<and> (axiosb (config c (GeneratePdfReport hash)) = AxiosError None m \<longrightarrow>
            generatePdfReport axiosb c hash = Rejected (Error (''MobSF API Error: '' @ m)))
       \<and> (axiosb (config c (GeneratePdfReport hash)) = Exception e \<longrightarrow>
            generatePdfReport axiosb c hash = Rejected (Thrown e))"
  by (simp add: perform_def sendRequest_def generatePdfReport_def)

text \<open>
  The example of the claim: an HTTP 500 whose body is \<^verbatim>\<open>{"error":"boom"}\<close>, on
  \<^verbatim>\<open>getScanLogs\<close>; then a failure without a response, and a foreign exception.
\<close>

theorem sendRequest_failure_message_witness:
  "getScanLogs
     (answers (AxiosError (Some (JObj [(''error'', JStr ''boom'')])) ''Request failed with status code 500''
        :: (json, unit) axios_outcome))
     (MobSFClient ''http://localhost:8000/'' ''key'') ''abc''
     = Rejected (Error (''MobSF API Error: {'' @ [CHR 0x0A] @ ''  '' @ [CHR 0x22] @ ''error''
         @ [CHR 0x22] @ '': '' @ [CHR 0x22] @ ''boom'' @ [CHR 0x22, CHR 0x0A] @ ''}''))
   \<and> getScanLogs (answers (AxiosError None ''connect ECONNREFUSED'' :: (json, unit) axios_outcome))
     (MobSFClient ''http://localhost:8000/'' ''key'') ''abc''
     = Rejected (Error ''MobSF API Error: connect ECONNREFUSED'')
   \<and> getScanLogs (answers (Exception () :: (json, unit) axios_outcome))
     (MobSFClient ''http://localhost:8000/'' ''key'') ''abc''
     = Rejected (Thrown ())"
  using sendRequest_failure_message [where cl = "GetScanLogs ''abc''"
      and c = "MobSFClient ''http://localhost:8000/'' ''key''"
      and axios = "answers (AxiosError (Some (JObj [(''error'', JStr ''boom'')])) ''Request failed with status code 500''
        :: (json, unit) axios_outcome)"
      and d = "JObj [(''error'', JStr ''boom'')]" and m = "''Request failed with status code 500''"]
    sendRequest_failure_message [where cl = "GetScanLogs ''abc''"
      and c = "MobSFClient ''http://localhost:8000/'' ''key''"
      and axios = "answers (AxiosError None ''connect ECONNREFUSED'' :: (json, unit) axios_outcome)"
      and m = "''connect ECONNREFUSED''"]
    sendRequest_failure_message [where cl = "GetScanLogs ''abc''"
      and c = "MobSFClient ''http://localhost:8000/'' ''key''"
      and axios = "answers (Exception () :: (json, unit) axios_outcome)" and e = "()"]
  by (simp add: stringify_def quote_def quote_char_def)

text \<open>
  C5 as stated fails twice. An HTTP failure of \<^verbatim>\<open>getScanLogs\<close> whose body is the JSON
  value \<^verbatim>\<open>false\<close> is reported with the underlying message, not with the body. An HTTP
  failure of \<^verbatim>\<open>generatePdfReport\<close> whose body is the sixteen bytes of
  \<^verbatim>\<open>{"error":"boom"}\<close> is reported with the JSON form of the byte buffer, not with the
  indented \<^verbatim>\<open>{"error":"boom"}\<close>.
\<close>

theorem sendRequest_failure_counterexample:
  "getScanLogs
     (answers (AxiosError (Some (JBool False)) ''Request failed with status code 500''
        :: (json, unit) axios_outcome))
     (MobSFClient ''http://localhost:8000/'' ''key'') ''abc''
     \<noteq> Rejected (Error (''MobSF API Error: '' @ stringify (JBool False)))
   \<and> generatePdfReport
     (answers (AxiosError (Some [0x7B, 0x22, 0x65, 0x72, 0x72, 0x6F, 0x72, 0x22, 0x3A, 0x22, 0x62, 0x6F,
                             0x6F, 0x6D, 0x22, 0x7D])
          ''Request failed with status code 500'' :: (buffer, unit) axios_outcome))
     (MobSFClient ''http://localhost:8000/'' ''key'') ''abc''
     \<noteq> Rejected (Error (''MobSF API Error: '' @ stringify (JObj [(''error'', JStr ''boom'')])))"
  by (simp add: perform_def sendRequest_def generatePdfReport_def Buffer_toJSON_def
      stringify_def quote_def quote_char_def)

subsection \<open>The PDF report\<close>

lemma div_group: "r < n \<Longrightarrow> (q * n + r) div n = (q::nat)"
  by simp

lemma mod_group: "r < n \<Longrightarrow> (q * n + r) mod n = (r::nat)"
  by simp

lemma regroup1: "y < 256 \<Longrightarrow> x div 4 * 4 + (x mod 4 * 16 + y div 16) div 16 = (x::nat)"
proof -
  assume "y < 256"
  then have "y div 16 < 16" by simp
  then have "(x mod 4 * 16 + y div 16) div 16 = x mod 4" by (rule div_group)
  then show ?thesis by simp
qed

lemma regroup2:
  "y < 256 \<Longrightarrow> z < 256 \<Longrightarrow>
   (x mod 4 * 16 + y div 16) mod 16 * 16 + (y mod 16 * 4 + z div 64) div 4 = (y::nat)"
proof -
  assume "y < 256" "z < 256"
  then have a: "y div 16 < 16" and b: "z div 64 < 4" by simp_all
  have "(x mod 4 * 16 + y div 16) mod 16 = y div 16" using a by (rule mod_group)
  moreover have "(y mod 16 * 4 + z div 64) div 4 = y mod 16" using b by (rule div_group)
  ultimately show ?thesis by simp
qed

lemma regroup3: "z < 256 \<Longrightarrow> (y mod 16 * 4 + z div 64) mod 4 * 64 + z mod 64 = (z::nat)"
proof -
  assume "z < 256"
  then have b: "z div 64 < 4" by simp
  have "(y mod 16 * 4 + z div 64) mod 4 = z div 64" using b by (rule mod_group)
  then show ?thesis by simp
qed

lemma regroup4: "x div 4 * 4 + (x mod 4 * 16) div 16 = (x::nat)"
  by simp

lemma regroup5: "y < 256 \<Longrightarrow> (x mod 4 * 16 + y div 16) mod 16 * 16 + (y mod 16 * 4) div 4 = (y::nat)"
proof -
  assume "y < 256"
  then have a: "y div 16 < 16" by simp
  have "(x mod 4 * 16 + y div 16) mod 16 = y div 16" using a by (rule mod_group)
  then show ?thesis by simp
qed

lemma index_of_nth: "distinct xs \<Longrightarrow> n < length xs \<Longrightarrow> index_of (xs ! n) xs = Some n"
proof (induction xs arbitrary: n)
  case Nil
  then show ?case by simp
next
  case (Cons x xs)
  then show ?case by (cases n) auto
qed

lemma base64_value_char: "n < 64 \<Longrightarrow> base64_value (base64_char n) = Some n"
  unfolding base64_value_def base64_char_def by (rule index_of_nth) simp_all

lemma index_of_None: "x \<notin> set xs \<Longrightarrow> index_of x xs = None"
  by (induction xs) auto

lemma base64_char_not_pad: "n < 64 \<Longrightarrow> base64_char n \<noteq> CHR ''=''"
proof
  assume n: "n < 64" and eq: "base64_char n = CHR ''=''"
  have "base64_value (CHR ''='') = None"
    unfolding base64_value_def by (rule index_of_None) simp
  with base64_value_char[OF n] eq show False by simp
qed

lemma unat_byte: "unat (a :: 8 word) < 256"
  using unsigned_less[of a] by simp

lemma decode_one:
  fixes a :: "8 word"
  shows "base64_decode [base64_char (unat a div 4), base64_char (unat a mod 4 * 16), CHR ''='', CHR ''='']
         = Some [a]"
proof -
  define x where "x = unat a"
  have x: "x < 256" unfolding x_def by (rule unat_byte)
  have v1: "base64_value (base64_char (x div 4)) = Some (x div 4)"
    by (rule base64_value_char) (use x in simp)
  have v2: "base64_value (base64_char (x mod 4 * 16)) = Some (x mod 4 * 16)"
    by (rule base64_value_char) (use x in simp)
  have w: "(word_of_nat x :: 8 word) = a" unfolding x_def by simp
  show ?thesis
    unfolding x_def[symmetric]
    by (simp only: base64_decode.simps v1 v2 regroup4 w prod.case option.case simp_thms if_True)
qed

lemma decode_two:
  fixes a b :: "8 word"
  shows "base64_decode [base64_char (unat a div 4), base64_char (unat a mod 4 * 16 + unat b div 16),
           base64_char (unat b mod 16 * 4), CHR ''='']
         = Some [a, b]"
proof -
  define x where "x = unat a"
  define y where "y = unat b"
  have x: "x < 256" and y: "y < 256" unfolding x_def y_def by (rule unat_byte)+
  have v1: "base64_value (base64_char (x div 4)) = Some (x div 4)"
    by (rule base64_value_char) (use x in simp)
  have v2: "base64_value (base64_char (x mod 4 * 16 + y div 16)) = Some (x mod 4 * 16 + y div 16)"
    by (rule base64_value_char) (use y in simp)
  have s3: "y mod 16 * 4 < 64" by simp
  have v3: "base64_value (base64_char (y mod 16 * 4)) = Some (y mod 16 * 4)"
    using s3 by (rule base64_value_char)
  have p3: "base64_char (y mod 16 * 4) \<noteq> CHR ''=''"
    using s3 by (rule base64_char_not_pad)
  have w: "(word_of_nat x :: 8 word) = a" "(word_of_nat y :: 8 word) = b"
    unfolding x_def y_def by simp_all
  show ?thesis
    unfolding x_def[symmetric] y_def[symmetric]
    by (simp only: base64_decode.simps v1 v2 v3 p3 regroup1[OF y] regroup5[OF y] w
        prod.case option.case simp_thms if_True if_False)
qed

lemma decode_three:
  fixes a b c :: "8 word"
  assumes "base64_decode rest = Some bytes"
  shows "base64_decode ([base64_char (unat a div 4), base64_char (unat a mod 4 * 16 + unat b div 16),
           base64_char (unat b mod 16 * 4 + unat c div 64), base64_char (unat c mod 64)] @ rest)
         = Some (a # b # c # bytes)"
proof -
  define x where "x = unat a"
  define y where "y = unat b"
  define z where "z = unat c"
  have x: "x < 256" and y: "y < 256" and z: "z < 256"
    unfolding x_def y_def z_def by (rule unat_byte)+
  have v1: "base64_value (base64_char (x div 4)) = Some (x div 4)"
    by (rule base64_value_char) (use x in simp)
  have v2: "base64_value (base64_char (x mod 4 * 16 + y div 16)) = Some (x mod 4 * 16 + y div 16)"
    by (rule base64_value_char) (use y in simp)
  have s3: "y mod 16 * 4 + z div 64 < 64" using z by simp
  have v3: "base64_value (base64_char (y mod 16 * 4 + z div 64)) = Some (y mod 16 * 4 + z div 64)"
    using s3 by (rule base64_value_char)
  have p3: "base64_char (y mod 16 * 4 + z div 64) \<noteq> CHR ''=''"
    using s3 by (rule base64_char_not_pad)
  have s4: "z mod 64 < 64" by simp
  have v4: "base64_value (base64_char (z mod 64)) = Some (z mod 64)"
    using s4 by (rule base64_value_char)
  have p4: "base64_char (z mod 64) \<noteq> CHR ''=''"
    using s4 by (rule base64_char_not_pad)
  have w: "(word_of_nat x :: 8 word) = a" "(word_of_nat y :: 8 word) = b"
    "(word_of_nat z :: 8 word) = c"
    unfolding x_def y_def z_def by simp_all
  show ?thesis
    unfolding x_def[symmetric] y_def[symmetric] z_def[symmetric]
    by (simp only: append.simps base64_decode.simps v1 v2 v3 v4 p3 p4 assms
        regroup1[OF y] regroup2[OF y z] regroup3[OF z] w
        prod.case option.case simp_thms if_True if_False)
qed

lemma base64_roundtrip: "base64_decode (toString_base64 bytes) = Some bytes"
proof (induction bytes rule: toString_base64.induct)
  case 1
  show ?case by simp
next
  case (2 a)
  show ?case by (simp only: toString_base64.simps decode_one)
next
  case (3 a b)
  show ?case by (simp only: toString_base64.simps decode_two)
next
  case (4 a b c rest)
  show ?case by (simp only: toString_base64.simps decode_three[OF 4])
qed

text \<open>
  C6. When the backend answers the PDF request with raw bytes, \<^verbatim>\<open>generatePdfReport\<close>
  resolves with one resource item: its blob is the base64 text of exactly those bytes, so
  decoding the blob gives the bytes back; its MIME type is \<^verbatim>\<open>application/pdf\<close>; its URI
  is \<^verbatim>\<open>mobsf_report_<hash>.pdf\<close>, which contains the hash.
\<close>

theorem generatePdfReport_resource:
  assumes "axios (config c (GeneratePdfReport hash)) = Response bytes"
  shows "tool_generatePdfReport axios c hash
           = Resolved [ResourceContent
               \<lparr>uri = ''mobsf_report_'' @ hash @ ''.pdf'',
                blob = toString_base64 bytes,
                mimeType = ''application/pdf''\<rparr>]
       \<and> base64_decode (toString_base64 bytes) = Some bytes
       \<and> sublist hash (''mobsf_report_'' @ hash @ ''.pdf'')"
proof -
  have "sublist hash (''mobsf_report_'' @ hash @ ''.pdf'')"
    by (rule sublist_appendI)
  then show ?thesis
    using assms
    by (simp add: tool_generatePdfReport_def generatePdfReport_def base64_roundtrip)
qed

theorem generatePdfReport_resource_witness:
  "tool_generatePdfReport (answers (Response [0x25, 0x50, 0x44, 0x46] :: (buffer, unit) axios_outcome))
     (MobSFClient ''http://localhost:8000/'' ''key'') ''abc''
     = Resolved [ResourceContent
         \<lparr>uri = ''mobsf_report_abc.pdf'', blob = ''JVBERg=='', mimeType = ''application/pdf''\<rparr>]
   \<and> base64_decode ''JVBERg=='' = Some [0x25, 0x50, 0x44, 0x46]"
  using generatePdfReport_resource [where hash = "''abc''"
      and c = "MobSFClient ''http://localhost:8000/'' ''key''"
      and axios = "answers (Response [0x25, 0x50, 0x44, 0x46] :: (buffer, unit) axios_outcome)"
      and bytes = "[0x25, 0x50, 0x44, 0x46]"]
  by (simp add: base64_char_def)

subsection \<open>The requests\<close>

lemma map_of_spread_rev:
  "map_of (spread obj src) k = (case map_of (rev src) k of Some v \<Rightarrow> Some v | None \<Rightarrow> map_of obj k)"
  unfolding spread_def
  by (induction src arbitrary: obj) (auto simp: update_conv' split: option.splits)

lemma map_of_spread:
  "distinct (map fst src) \<Longrightarrow>
   map_of (spread obj src) k = (case map_of src k of Some v \<Rightarrow> Some v | None \<Rightarrow> map_of obj k)"
proof -
  assume d: "distinct (map fst src)"
  have "map_of (rev src) = map_of src"
    using d by (intro map_of_inject_set [THEN iffD2]) (simp_all add: rev_map [symmetric])
  then show ?thesis by (simp add: map_of_spread_rev)
qed

lemma map_of_spread_absent:
  "map_of src k = None \<Longrightarrow> map_of (spread obj src) k = map_of obj k"
proof -
  assume "map_of src k = None"
  then have "map_of (rev src) k = None" by (simp add: map_of_eq_None_iff)
  then show ?thesis by (simp add: map_of_spread_rev)
qed

text \<open>
  C7. The request of every method carries the headers \<^verbatim>\<open>Authorization\<close> and
  \<^verbatim>\<open>X-Mobsf-Api-Key\<close>, both equal to the client's API key, and its URL is the client's base
  URL followed by the method's path; for \<^verbatim>\<open>uploadFile\<close> this needs that the headers of the
  multipart library name neither of the two. The constructor stores the API key as given and
  the base URL with one trailing slash removed if there is one.
\<close>

theorem requests_carry_key_and_base:
  assumes "\<forall>filePath formHeaders. cl = UploadFile filePath formHeaders \<longrightarrow>
             map_of formHeaders ''Authorization'' = None \<and> map_of formHeaders ''X-Mobsf-Api-Key'' = None"
  shows "map_of (headers (config c cl)) ''Authorization'' = Some (apiKey c)
       \<and> map_of (headers (config c cl)) ''X-Mobsf-Api-Key'' = Some (apiKey c)
       \<and> url (config c cl) = baseUrl c @ api_path cl
       \<and> apiKey (MobSFClient url0 key) = key
       \<and> (\<forall>b. url0 = b @ ''/'' \<longrightarrow> baseUrl (MobSFClient url0 key) = b)
       \<and> (url0 = [] \<or> last url0 \<noteq> CHR ''/'' \<longrightarrow> baseUrl (MobSFClient url0 key) = url0)"
proof -
  have hs: "map_of (headers (config c cl)) ''Authorization'' = Some (apiKey c)
       \<and> map_of (headers (config c cl)) ''X-Mobsf-Api-Key'' = Some (apiKey c)"
    using assms
    by (cases cl)
       (simp_all add: form_post_def form_headers_def createRequestConfig_def
          map_of_spread_absent, simp_all add: spread_def)
  have u: "url (config c cl) = baseUrl c @ api_path cl"
    by (cases cl) (simp_all add: form_post_def createRequestConfig_def)
  show ?thesis using hs u by (auto simp: MobSFClient_def)
qed

theorem requests_carry_key_and_base_witness:
  "map_of (headers (config (MobSFClient ''http://localhost:8000/'' ''key'')
       (UploadFile ''/tmp/app.apk'' [(''content-type'', ''multipart/form-data; boundary=x'')])))
     ''Authorization'' = Some ''key''
   \<and> map_of (headers (config (MobSFClient ''http://localhost:8000/'' ''key'')
       (UploadFile ''/tmp/app.apk'' [(''content-type'', ''multipart/form-data; boundary=x'')])))
     ''X-Mobsf-Api-Key'' = Some ''key''
   \<and> url (config (MobSFClient ''http://localhost:8000/'' ''key'')
       (UploadFile ''/tmp/app.apk'' [(''content-type'', ''multipart/form-data; boundary=x'')]))
     = ''http://localhost:8000/api/v1/upload''
   \<and> baseUrl (MobSFClient ''http://localhost:8000//'' ''key'') = ''http://localhost:8000/''
   \<and> baseUrl (MobSFClient ''http://localhost:8000'' ''key'') = ''http://localhost:8000''"
  using requests_carry_key_and_base [where c = "MobSFClient ''http://localhost:8000/'' ''key''"
      and cl = "UploadFile ''/tmp/app.apk'' [(''content-type'', ''multipart/form-data; boundary=x'')]"
      and ?url0.0 = "''http://localhost:8000//''" and key = "''key''"]
    requests_carry_key_and_base [where c = "MobSFClient ''http://localhost:8000/'' ''key''"
      and cl = "UploadFile ''/tmp/app.apk'' [(''content-type'', ''multipart/form-data; boundary=x'')]"
      and ?url0.0 = "''http://localhost:8000''" and key = "''key''"]
  by (simp add: MobSFClient_def)

text \<open>
  C8 (amended). The request of \<^verbatim>\<open>uploadFile\<close> has a multipart body, and its headers are
  the two key headers overlaid with the headers of the multipart library, so a content type
  comes from that library alone. Every other POST request carries the header
  \<^verbatim>\<open>Content-Type: application/x-www-form-urlencoded\<close>; its body is the url-encoded text
  of a non-empty form, except for \<^verbatim>\<open>getScanTasks\<close>, which sends no body.
\<close>

theorem upload_multipart_others_form:
  assumes "distinct (map fst formHeaders)"
  shows "data (config c (UploadFile filePath formHeaders)) = Multipart filePath
       \<and> (\<forall>h. map_of (headers (config c (UploadFile filePath formHeaders))) h
              = (case map_of formHeaders h of
                   Some v \<Rightarrow> Some v
                 | None \<Rightarrow> if h = ''Authorization'' \<or> h = ''X-Mobsf-Api-Key''
                            then Some (apiKey c) else None))
       \<and> (http_method (config c cl) = POST \<and> (\<forall>f hs. cl \<noteq> UploadFile f hs) \<longrightarrow>
            map_of (headers (config c cl)) ''Content-Type'' = Some ''application/x-www-form-urlencoded''
          \<and> (cl \<noteq> GetScanTasks \<longrightarrow>
               (\<exists>entries. entries \<noteq> []
                  \<and> data (config c cl) = FormString (URLSearchParams_toString entries))))"
proof -
  have up: "\<forall>h. map_of (headers (config c (UploadFile filePath formHeaders))) h
              = (case map_of formHeaders h of
                   Some v \<Rightarrow> Some v
                 | None \<Rightarrow> if h = ''Authorization'' \<or> h = ''X-Mobsf-Api-Key''
                            then Some (apiKey c) else None)"
    using assms by (auto simp: map_of_spread split: option.splits)
  have others: "http_method (config c cl) = POST \<and> (\<forall>f hs. cl \<noteq> UploadFile f hs) \<longrightarrow>
            map_of (headers (config c cl)) ''Content-Type'' = Some ''application/x-www-form-urlencoded''
          \<and> (cl \<noteq> GetScanTasks \<longrightarrow>
               (\<exists>entries. entries \<noteq> []
                  \<and> data (config c cl) = FormString (URLSearchParams_toString entries)))"
    by (cases cl) (auto simp: form_post_def form_headers_def createRequestConfig_def)
  show ?thesis using up others by simp
qed

theorem upload_multipart_others_form_witness:
  "data (config (MobSFClient ''http://localhost:8000/'' ''key'')
       (UploadFile ''/tmp/app.apk'' [(''content-type'', ''multipart/form-data; boundary=x'')]))
     = Multipart ''/tmp/app.apk''
   \<and> map_of (headers (config (MobSFClient ''http://localhost:8000/'' ''key'')
       (UploadFile ''/tmp/app.apk'' [(''content-type'', ''multipart/form-data; boundary=x'')])))
       ''content-type'' = Some ''multipart/form-data; boundary=x''
   \<and> map_of (headers (config (MobSFClient ''http://localhost:8000/'' ''key'')
       (UploadFile ''/tmp/app.apk'' [(''content-type'', ''multipart/form-data; boundary=x'')])))
       ''Content-Type'' = None
   \<and> map_of (headers (config (MobSFClient ''http://localhost:8000/'' ''key'') (GetScanLogs ''ab c'')))
       ''Content-Type'' = Some ''application/x-www-form-urlencoded''
   \<and> data (config (MobSFClient ''http://localhost:8000/'' ''key'') (GetScanLogs ''ab c''))
     = FormString ''hash=ab+c''"
  using upload_multipart_others_form [where c = "MobSFClient ''http://localhost:8000/'' ''key''"
      and filePath = "''/tmp/app.apk''"
      and formHeaders = "[(''content-type'', ''multipart/form-data; boundary=x'')]"
      and cl = "GetScanLogs ''ab c''"]
  by (simp add: form_post_def URLSearchParams_toString_def form_encode_def form_encode_char_def
      form_unreserved_def)

text \<open>
  C8 as stated fails for \<^verbatim>\<open>getScanTasks\<close>: its request is a POST that is not the upload,
  and it has no body at all.
\<close>

theorem getScanTasks_no_body_counterexample:
  "http_method (config (MobSFClient ''http://localhost:8000/'' ''key'') GetScanTasks) = POST
   \<and> data (config (MobSFClient ''http://localhost:8000/'' ''key'') GetScanTasks) = NoBody"
  by simp

subsection \<open>Shaping of the result\<close>

text \<open>
  C10. The shaping depends on the tool. \<^verbatim>\<open>getScanTasks\<close> and \<^verbatim>\<open>compareApps\<close> put the
  backend's result into the text as it is, so a string stays unchanged. \<^verbatim>\<open>viewSource\<close>,
  \<^verbatim>\<open>suppressByRule\<close>, \<^verbatim>\<open>suppressByFiles\<close>, \<^verbatim>\<open>listSuppressions\<close> and
  \<^verbatim>\<open>deleteSuppression\<close> pass a string through and serialise anything else.
  \<^verbatim>\<open>uploadFile\<close>, \<^verbatim>\<open>getScanLogs\<close>, \<^verbatim>\<open>getJsonReport\<close>, \<^verbatim>\<open>getRecentScans\<close>,
  \<^verbatim>\<open>searchScanResult\<close>, \<^verbatim>\<open>deleteScan\<close> and \<^verbatim>\<open>getScorecard\<close> always serialise, and
  the serialisation of a string is the string escaped and put between double quotes.
\<close>

theorem result_shaping:
  "(getScanTasks axios c = Resolved d \<longrightarrow>
      tool_getScanTasks axios c = Resolved [TextContent (Val d)])
   \<and> (compareApps axios c hash1 hash2 = Resolved d \<longrightarrow>
      tool_compareApps axios c hash1 hash2 = Resolved [TextContent (Val d)])
   \<and> (viewSource axios c hash fileName projectType = Resolved d \<longrightarrow>
      tool_viewSource axios c hash fileName projectType
        = Resolved [TextContent (case d of JStr s \<Rightarrow> String s | _ \<Rightarrow> String (stringify d))])
   \<and> (suppressByRule axios c hash projectType rule = Resolved d \<longrightarrow>
      tool_suppressByRule axios c hash projectType rule
        = Resolved [TextContent (case d of JStr s \<Rightarrow> String s | _ \<Rightarrow> String (stringify d))])
   \<and> (suppressByFiles axios c hash projectType rule = Resolved d \<longrightarrow>
      tool_suppressByFiles axios c hash projectType rule
        = Resolved [TextContent (case d of JStr s \<Rightarrow> String s | _ \<Rightarrow> String (stringify d))])
   \<and> (listSuppressions axios c hash = Resolved d \<longrightarrow>
      tool_listSuppressions axios c hash
        = Resolved [TextContent (case d of JStr s \<Rightarrow> String s | _ \<Rightarrow> String (stringify d))])
   \<and> (deleteSuppression axios c hash projectType rule kind = Resolved d \<longrightarrow>
      tool_deleteSuppression axios c hash projectType rule kind
        = Resolved [TextContent (case d of JStr s \<Rightarrow> String s | _ \<Rightarrow> String (stringify d))])
   \<and> (uploadFile axios c fileName formHeaders = Resolved d \<longrightarrow>
      tool_uploadFile axios c fileName formHeaders = Resolved [TextContent (String (stringify d))])
   \<and> (getScanLogs axios c hash = Resolved d \<longrightarrow>
      tool_getScanLogs axios c hash = Resolved [TextContent (String (stringify d))])
   \<and> (generateJsonReport axios c hash = Resolved d \<longrightarrow>
      tool_getJsonReport axios c hash = Resolved [TextContent (String (stringify d))])
   \<and> (getRecentScans axios c page pageSize = Resolved d \<longrightarrow>
      tool_getRecentScans axios c page pageSize = Resolved [TextContent (String (stringify d))])
   \<and> (searchScanResult axios c query = Resolved d \<longrightarrow>
      tool_searchScanResult axios c query = Resolved [TextContent (String (stringify d))])
   \<and> (deleteScan axios c hash = Resolved d \<longrightarrow>
      tool_deleteScan axios c hash = Resolved [TextContent (String (stringify d))])
   \<and> (getScorecard axios c hash = Resolved d \<longrightarrow>
      tool_getScorecard axios c hash = Resolved [TextContent (String (stringify d))])
   \<and> stringify (JStr s) = [CHR 0x22] @ concat (map quote_char s) @ [CHR 0x22]"
  by (auto simp: tool_getScanTasks_def tool_compareApps_def tool_viewSource_def
      tool_suppressByRule_def tool_suppressByFiles_def tool_listSuppressions_def
      tool_deleteSuppression_def tool_uploadFile_def tool_getScanLogs_def tool_getJsonReport_def
      tool_getRecentScans_def tool_searchScanResult_def tool_deleteScan_def tool_getScorecard_def
      string_or_stringify_def stringify_def quote_def split: json.splits)

text \<open>
  The backend answers every request with the string \<^verbatim>\<open>ok\<close>: two tools and the
  pass-through tools give \<^verbatim>\<open>ok\<close>, the serialising tools give \<^verbatim>\<open>"ok"\<close>.
\<close>

theorem result_shaping_witness:
  "tool_getScanTasks (answers (Response (JStr ''ok'') :: (json, unit) axios_outcome))
     (MobSFClient ''http://localhost:8000/'' ''key'')
     = Resolved [TextContent (String ''ok'')]
   \<and> tool_compareApps (answers (Response (JStr ''ok'') :: (json, unit) axios_outcome))
     (MobSFClient ''http://localhost:8000/'' ''key'') ''abc'' ''def''
     = Resolved [TextContent (String ''ok'')]
   \<and> tool_viewSource (answers (Response (JStr ''ok'') :: (json, unit) axios_outcome))
     (MobSFClient ''http://localhost:8000/'' ''key'') ''abc'' ''a.java'' ''apk''
     = Resolved [TextContent (String ''ok'')]
   \<and> tool_getScanLogs (answers (Response (JStr ''ok'') :: (json, unit) axios_outcome))
     (MobSFClient ''http://localhost:8000/'' ''key'') ''abc''
     = Resolved [TextContent (String [CHR 0x22, CHR ''o'', CHR ''k'', CHR 0x22])]
   \<and> tool_getJsonReport (answers (Response (JStr ''ok'') :: (json, unit) axios_outcome))
     (MobSFClient ''http://localhost:8000/'' ''key'') ''abc''
     = Resolved [TextContent (String [CHR 0x22, CHR ''o'', CHR ''k'', CHR 0x22])]"
  using result_shaping [where axios = "answers (Response (JStr ''ok'') :: (json, unit) axios_outcome)"
      and c = "MobSFClient ''http://localhost:8000/'' ''key''" and d = "JStr ''ok''"
      and hash = "''abc''" and ?hash1.0 = "''abc''" and ?hash2.0 = "''def''"
      and fileName = "''a.java''" and projectType = "''apk''"]
  by (simp add: perform_response stringify_def quote_def quote_char_def)

end
